theory Spec2Isabelle
  imports Complex_Main "HOL-Library.Monad_Syntax"
begin

section \<open>Gesture recognition of AdaptEd: data model\<close>

text \<open>
  The development embeds section 12 of the front-end script (GESTURE RECOGNITION,
  MediaPipe Hands): the classifier \<open>classifyGesture\<close>, the smoothing buffer
  \<open>getSmoothedGesture\<close>, the debounce guard of \<open>executeGestureAction\<close>, the
  \<open>hands.onResults\<close> callback and \<open>stopGestureRecognition\<close>.

  JavaScript numbers are modelled as reals (coordinates) and integers (the millisecond
  clock \<open>Date.now()\<close>); rounding of doubles is not modelled. A thrown \<open>TypeError\<close>
  (a property read on \<open>undefined\<close>) is the value \<open>None\<close> of an option result.
\<close>

text \<open>
  A landmark object \<open>{x, y, z}\<close> of the detector; \<open>z\<close> may be absent. The fields are
  named \<open>lm_x\<close>, \<open>lm_y\<close>, \<open>lm_z\<close> because a record field is a constant, and
  \<open>x\<close>, \<open>y\<close>, \<open>z\<close> must stay usable as variables.
\<close>

record landmark =
  lm_x :: real
  lm_y :: real
  lm_z :: "real option"

text \<open>
  The object literal \<open>{ name, emoji, action }\<close> returned by the classifier. The emoji
  is kept as its list of Unicode code points; \<open>action: null\<close> is \<open>None\<close>.
\<close>

record GestureResult =
  name :: string
  emoji :: "nat list"
  action :: "string option"

text \<open>
  The module-level variables \<open>lastGesture\<close>, \<open>gestureDebounce\<close>, \<open>gestureBuffer\<close>
  and \<open>confirmedGesture\<close>, threaded through the functions as one state.
\<close>

record ConfirmationState =
  lastGesture :: string
  gestureDebounce :: int
  gestureBuffer :: "string list"
  confirmedGesture :: "string option"

text \<open>The initialisers of the four declarations: \<open>''\<close>, \<open>0\<close>, \<open>[]\<close>, \<open>null\<close>.\<close>

definition initialState :: ConfirmationState where
  "initialState =
     \<lparr>lastGesture = [], gestureDebounce = 0, gestureBuffer = [], confirmedGesture = None\<rparr>"

definition GESTURE_CONFIRM_FRAMES :: nat where
  "GESTURE_CONFIRM_FRAMES = 3"

section \<open>Smoothing and debounce\<close>

text \<open>
  \<open>getSmoothedGesture(currentGesture)\<close>: push the name, shift when the buffer is
  longer than \<open>GESTURE_CONFIRM_FRAMES\<close>, and return the gesture when the buffer is full,
  all of its entries equal the name, and the name is not the confirmed one already.
\<close>

definition getSmoothedGesture ::
  "ConfirmationState \<Rightarrow> GestureResult \<Rightarrow> ConfirmationState \<times> GestureResult option" where
  "getSmoothedGesture st currentGesture =
     (let pushed = gestureBuffer st @ [name currentGesture];
          buf = (if length pushed > GESTURE_CONFIRM_FRAMES then tl pushed else pushed);
          st1 = st\<lparr>gestureBuffer := buf\<rparr>
      in if length buf = GESTURE_CONFIRM_FRAMES \<and> list_all (\<lambda>g. g = name currentGesture) buf
         then (if confirmedGesture st1 \<noteq> Some (name currentGesture)
               then (st1\<lparr>confirmedGesture := Some (name currentGesture)\<rparr>, Some currentGesture)
               else (st1, None))
         else (st1, None))"

text \<open>
  The guard of \<open>executeGestureAction(gesture)\<close>, with \<open>now = Date.now()\<close> as an
  argument. The early \<open>return\<close> gives \<open>None\<close>; past the guard the two variables are
  updated and the gesture is dispatched (the display and the \<open>switch\<close> on the action
  are not modelled), which is the result \<open>Some gesture\<close>.
\<close>

definition executeGestureAction ::
  "ConfirmationState \<Rightarrow> GestureResult \<Rightarrow> int \<Rightarrow> ConfirmationState \<times> GestureResult option" where
  "executeGestureAction st gesture now =
     (if name gesture = lastGesture st \<and> now - gestureDebounce st < 800
      then (st, None)
      else (st\<lparr>lastGesture := name gesture, gestureDebounce := now\<rparr>, Some gesture))"


text \<open>
  JavaScript truthiness of \<open>rawGesture.action\<close>, a string or \<open>null\<close>: \<open>null\<close>
  and the empty string are falsy.
\<close>

definition truthy :: "string option \<Rightarrow> bool" where
  "truthy a = (case a of None \<Rightarrow> False | Some s \<Rightarrow> s \<noteq> [])"

text \<open>
  \<open>stopGestureRecognition()\<close>: of the four variables it assigns \<open>gestureBuffer = []\<close>
  and \<open>confirmedGesture = null\<close>; the camera, the stream and the display it also
  touches are not modelled.
\<close>

definition stopGestureRecognition :: "ConfirmationState \<Rightarrow> ConfirmationState" where
  "stopGestureRecognition st = st\<lparr>gestureBuffer := [], confirmedGesture := None\<rparr>"

section \<open>The classifier\<close>

definition tips :: "nat list" where
  "tips = [8, 12, 16, 20]"

definition pips :: "nat list" where
  "pips = [6, 10, 14, 18]"

definition mcps :: "nat list" where
  "mcps = [5, 9, 13, 17]"

text \<open>\<open>(a.z || 0)\<close>: an absent \<open>z\<close> counts as 0.\<close>

definition zOr0 :: "landmark \<Rightarrow> real" where
  "zOr0 a = (case lm_z a of None \<Rightarrow> 0 | Some v \<Rightarrow> v)"

definition landmarkDist :: "landmark \<Rightarrow> landmark \<Rightarrow> real" where
  "landmarkDist a b =
     sqrt ((lm_x a - lm_x b)\<^sup>2 + (lm_y a - lm_y b)\<^sup>2 + (zOr0 a - zOr0 b)\<^sup>2)"

text \<open>
  The read \<open>landmarks[i]\<close> whose result a property is then read from. Past the end of the
  array \<open>landmarks[i]\<close> is \<open>undefined\<close> and the property read throws: \<open>None\<close>.
\<close>

definition landmarkAt :: "landmark list \<Rightarrow> nat \<Rightarrow> landmark option" where
  "landmarkAt landmarks i = (if i < length landmarks then Some (landmarks ! i) else None)"

definition xAt :: "landmark list \<Rightarrow> nat \<Rightarrow> real option" where
  "xAt landmarks i = map_option lm_x (landmarkAt landmarks i)"

definition yAt :: "landmark list \<Rightarrow> nat \<Rightarrow> real option" where
  "yAt landmarks i = map_option lm_y (landmarkAt landmarks i)"

text \<open>\<open>landmarks[i].y < landmarks[j].y\<close> and \<open>landmarks[i].y > landmarks[j].y\<close>.\<close>

definition yLess :: "landmark list \<Rightarrow> nat \<Rightarrow> nat \<Rightarrow> bool option" where
  "yLess landmarks i j = do { a \<leftarrow> yAt landmarks i; b \<leftarrow> yAt landmarks j; Some (a < b) }"

definition yGreater :: "landmark list \<Rightarrow> nat \<Rightarrow> nat \<Rightarrow> bool option" where
  "yGreater landmarks i j = do { a \<leftarrow> yAt landmarks i; b \<leftarrow> yAt landmarks j; Some (a > b) }"

text \<open>\<open>landmarkDist(landmarks[i], landmarks[j])\<close>.\<close>

definition distAt :: "landmark list \<Rightarrow> nat \<Rightarrow> nat \<Rightarrow> real option" where
  "distAt landmarks i j =
     do { a \<leftarrow> landmarkAt landmarks i; b \<leftarrow> landmarkAt landmarks j; Some (landmarkDist a b) }"

text \<open>
  \<open>classifyGesture(landmarks)\<close>, statement by statement. The bound variables carry the
  names of the source's constants. \<open>tips.map((tip, i) => ... pips[i] ...)\<close> pairs each tip
  with the entry of \<open>pips\<close> at the same position, which is \<open>zip tips pips\<close>. A condition
  joined by \<open>&&\<close> reads its landmarks only when the conjuncts before it hold. The array
  \<open>fingersExtended\<close> has the four entries the \<open>map\<close> gave it, so that the reads
  \<open>fingersExtended[0]\<close> to \<open>fingersExtended[3]\<close> are in range.
\<close>

definition classifyGesture :: "landmark list \<Rightarrow> GestureResult option" where
  "classifyGesture landmarks = do {
     fingersExtended \<leftarrow> those (map (\<lambda>(tip, pip). yLess landmarks tip pip) (zip tips pips));
     x4 \<leftarrow> xAt landmarks 4;
     x2 \<leftarrow> xAt landmarks 2;
     x3 \<leftarrow> xAt landmarks 3;
     let thumbExtended = \<bar>x4 - x2\<bar> > \<bar>x3 - x2\<bar>;
     thumbPointingUp \<leftarrow> yLess landmarks 4 0;
     let extendedCount = length (filter id fingersExtended);
     if extendedCount \<ge> 4 \<and> thumbExtended
     then Some \<lparr>name = ''Open Palm'', emoji = [9995], action = Some ''stop''\<rparr>
     else do {
     thumbsUp \<leftarrow> (if thumbExtended \<and> thumbPointingUp \<and> extendedCount = 0
                  then yLess landmarks 4 5 else Some False);
     if thumbsUp
     then Some \<lparr>name = ''Thumbs Up'', emoji = [128077], action = Some ''confirm''\<rparr>
     else do {
     thumbsDown \<leftarrow> (if thumbExtended \<and> \<not> thumbPointingUp \<and> extendedCount = 0
                    then yGreater landmarks 4 3 else Some False);
     if thumbsDown
     then Some \<lparr>name = ''Thumbs Down'', emoji = [128078], action = Some ''reject''\<rparr>
     else if extendedCount = 0 \<and> \<not> thumbExtended
     then Some \<lparr>name = ''Fist'', emoji = [9994], action = Some ''start''\<rparr>
     else do {
     pinchDist \<leftarrow> distAt landmarks 4 8;
     if pinchDist < 0.06 \<and> \<not> fingersExtended ! 1 \<and> \<not> fingersExtended ! 2
        \<and> \<not> fingersExtended ! 3
     then Some \<lparr>name = ''Pinch'', emoji = [129295], action = Some ''zoom''\<rparr>
     else do {
     okDist \<leftarrow> distAt landmarks 4 8;
     if okDist < 0.07 \<and> fingersExtended ! 1 \<and> fingersExtended ! 2 \<and> fingersExtended ! 3
     then Some \<lparr>name = ''OK Sign'', emoji = [128076], action = Some ''toggle-theme''\<rparr>
     else if fingersExtended ! 0 \<and> fingersExtended ! 1 \<and> \<not> fingersExtended ! 2
        \<and> \<not> fingersExtended ! 3
     then Some \<lparr>name = ''Peace Sign'', emoji = [9996, 65039], action = Some ''scroll''\<rparr>
     else if fingersExtended ! 0 \<and> \<not> fingersExtended ! 1 \<and> \<not> fingersExtended ! 2
        \<and> \<not> fingersExtended ! 3
     then Some \<lparr>name = ''Pointing'', emoji = [9757, 65039], action = Some ''point''\<rparr>
     else if fingersExtended ! 0 \<and> fingersExtended ! 1 \<and> fingersExtended ! 2
        \<and> \<not> fingersExtended ! 3
     then Some \<lparr>name = ''Three Fingers'', emoji = [129311], action = Some ''scroll-up''\<rparr>
     else if thumbExtended \<and> fingersExtended ! 0 \<and> \<not> fingersExtended ! 1
        \<and> \<not> fingersExtended ! 2 \<and> \<not> fingersExtended ! 3
     then Some \<lparr>name = ''L-Shape'', emoji = [128070], action = Some ''prev-section''\<rparr>
     else if extendedCount \<ge> 4 \<and> \<not> thumbExtended
     then Some \<lparr>name = ''Four Fingers'', emoji = [128406], action = Some ''next-section''\<rparr>
     else if fingersExtended ! 0 \<and> \<not> fingersExtended ! 1 \<and> \<not> fingersExtended ! 2
        \<and> fingersExtended ! 3
     then Some \<lparr>name = ''Rock On'', emoji = [129304], action = Some ''top''\<rparr>
     else if thumbExtended \<and> \<not> fingersExtended ! 0 \<and> \<not> fingersExtended ! 1
        \<and> \<not> fingersExtended ! 2 \<and> fingersExtended ! 3
     then Some \<lparr>name = ''Hang Loose'', emoji = [129305], action = Some ''bottom''\<rparr>
     else Some \<lparr>name = ''Unknown'', emoji = [129306], action = None\<rparr>
     } } } } }"

section \<open>Features and rule conditions of a hand of 21 landmarks\<close>

text \<open>
  On an array of at least 21 landmarks every read of \<open>classifyGesture\<close> is in range,
  and its constants are plain functions of the array: \<open>fingersExtended\<close>,
  \<open>thumbExtended\<close>, \<open>thumbPointingUp\<close>, \<open>extendedCount\<close> and the distance of
  thumb tip and index tip (\<open>pinchDist\<close>, \<open>okDist\<close>).
\<close>

definition fingersExtendedOf :: "landmark list \<Rightarrow> bool list" where
  "fingersExtendedOf landmarks =
     map (\<lambda>(tip, pip). lm_y (landmarks ! tip) < lm_y (landmarks ! pip)) (zip tips pips)"

definition thumbExtendedOf :: "landmark list \<Rightarrow> bool" where
  "thumbExtendedOf landmarks =
     (\<bar>lm_x (landmarks ! 4) - lm_x (landmarks ! 2)\<bar>
        > \<bar>lm_x (landmarks ! 3) - lm_x (landmarks ! 2)\<bar>)"

definition thumbPointingUpOf :: "landmark list \<Rightarrow> bool" where
  "thumbPointingUpOf landmarks = (lm_y (landmarks ! 4) < lm_y (landmarks ! 0))"

definition extendedCountOf :: "landmark list \<Rightarrow> nat" where
  "extendedCountOf landmarks = length (filter id (fingersExtendedOf landmarks))"

definition pinchDistOf :: "landmark list \<Rightarrow> real" where
  "pinchDistOf landmarks = landmarkDist (landmarks ! 4) (landmarks ! 8)"

text \<open>
  The conditions of the thirteen \<open>if\<close> statements of \<open>classifyGesture\<close>, in the
  order of the source.
\<close>

definition ruleOpenPalm :: "landmark list \<Rightarrow> bool" where
  "ruleOpenPalm landmarks = (extendedCountOf landmarks \<ge> 4 \<and> thumbExtendedOf landmarks)"

definition ruleThumbsUp :: "landmark list \<Rightarrow> bool" where
  "ruleThumbsUp landmarks =
     (thumbExtendedOf landmarks \<and> thumbPointingUpOf landmarks \<and> extendedCountOf landmarks = 0
      \<and> lm_y (landmarks ! 4) < lm_y (landmarks ! 5))"

definition ruleThumbsDown :: "landmark list \<Rightarrow> bool" where
  "ruleThumbsDown landmarks =
     (thumbExtendedOf landmarks \<and> \<not> thumbPointingUpOf landmarks
      \<and> extendedCountOf landmarks = 0 \<and> lm_y (landmarks ! 4) > lm_y (landmarks ! 3))"

definition ruleFist :: "landmark list \<Rightarrow> bool" where
  "ruleFist landmarks = (extendedCountOf landmarks = 0 \<and> \<not> thumbExtendedOf landmarks)"

definition rulePinch :: "landmark list \<Rightarrow> bool" where
  "rulePinch landmarks =
     (pinchDistOf landmarks < 0.06 \<and> \<not> fingersExtendedOf landmarks ! 1
      \<and> \<not> fingersExtendedOf landmarks ! 2 \<and> \<not> fingersExtendedOf landmarks ! 3)"

definition ruleOKSign :: "landmark list \<Rightarrow> bool" where
  "ruleOKSign landmarks =
     (pinchDistOf landmarks < 0.07 \<and> fingersExtendedOf landmarks ! 1
      \<and> fingersExtendedOf landmarks ! 2 \<and> fingersExtendedOf landmarks ! 3)"

definition rulePeaceSign :: "landmark list \<Rightarrow> bool" where
  "rulePeaceSign landmarks =
     (fingersExtendedOf landmarks ! 0 \<and> fingersExtendedOf landmarks ! 1
      \<and> \<not> fingersExtendedOf landmarks ! 2 \<and> \<not> fingersExtendedOf landmarks ! 3)"

definition rulePointing :: "landmark list \<Rightarrow> bool" where
  "rulePointing landmarks =
     (fingersExtendedOf landmarks ! 0 \<and> \<not> fingersExtendedOf landmarks ! 1
      \<and> \<not> fingersExtendedOf landmarks ! 2 \<and> \<not> fingersExtendedOf landmarks ! 3)"

definition ruleThreeFingers :: "landmark list \<Rightarrow> bool" where
  "ruleThreeFingers landmarks =
     (fingersExtendedOf landmarks ! 0 \<and> fingersExtendedOf landmarks ! 1
      \<and> fingersExtendedOf landmarks ! 2 \<and> \<not> fingersExtendedOf landmarks ! 3)"

definition ruleLShape :: "landmark list \<Rightarrow> bool" where
  "ruleLShape landmarks =
     (thumbExtendedOf landmarks \<and> fingersExtendedOf landmarks ! 0
      \<and> \<not> fingersExtendedOf landmarks ! 1 \<and> \<not> fingersExtendedOf landmarks ! 2
      \<and> \<not> fingersExtendedOf landmarks ! 3)"

definition ruleFourFingers :: "landmark list \<Rightarrow> bool" where
  "ruleFourFingers landmarks =
     (extendedCountOf landmarks \<ge> 4 \<and> \<not> thumbExtendedOf landmarks)"

definition ruleRockOn :: "landmark list \<Rightarrow> bool" where
  "ruleRockOn landmarks =
     (fingersExtendedOf landmarks ! 0 \<and> \<not> fingersExtendedOf landmarks ! 1
      \<and> \<not> fingersExtendedOf landmarks ! 2 \<and> fingersExtendedOf landmarks ! 3)"

definition ruleHangLoose :: "landmark list \<Rightarrow> bool" where
  "ruleHangLoose landmarks =
     (thumbExtendedOf landmarks \<and> \<not> fingersExtendedOf landmarks ! 0
      \<and> \<not> fingersExtendedOf landmarks ! 1 \<and> \<not> fingersExtendedOf landmarks ! 2
      \<and> fingersExtendedOf landmarks ! 3)"

section \<open>The frame callback\<close>

text \<open>
  What one frame brings to the smoothing: a classified hand, or no hand. The callback
  of \<open>hands.onResults\<close> handles the first in the branch \<open>if (rawGesture.action)\<close> and
  its \<open>else\<close>, the second in its outer \<open>else\<close>; \<open>now\<close> is the \<open>Date.now()\<close> that
  \<open>executeGestureAction\<close> reads.
\<close>

datatype observation = Gesture GestureResult | NoHand

fun observe ::
  "ConfirmationState \<Rightarrow> observation \<Rightarrow> int \<Rightarrow> ConfirmationState \<times> GestureResult option" where
  "observe st (Gesture rawGesture) now =
     (if truthy (action rawGesture)
      then (case getSmoothedGesture st rawGesture of
              (st1, None) \<Rightarrow> (st1, None)
            | (st1, Some confirmed) \<Rightarrow> executeGestureAction st1 confirmed now)
      else (st\<lparr>gestureBuffer := [], confirmedGesture := None\<rparr>, None))"
| "observe st NoHand now = (st\<lparr>gestureBuffer := [], confirmedGesture := None\<rparr>, None)"

text \<open>
  The callback itself: \<open>results.multiHandLandmarks\<close> may be absent (\<open>None\<close>) or empty;
  otherwise its first hand is classified. The result is \<open>None\<close> when
  \<open>classifyGesture\<close> throws.
\<close>

definition onResults ::
  "ConfirmationState \<Rightarrow> landmark list list option \<Rightarrow> int
     \<Rightarrow> (ConfirmationState \<times> GestureResult option) option" where
  "onResults st multiHandLandmarks now =
     (case multiHandLandmarks of
        None \<Rightarrow> Some (observe st NoHand now)
      | Some [] \<Rightarrow> Some (observe st NoHand now)
      | Some (landmarks # _) \<Rightarrow>
          map_option (\<lambda>rawGesture. observe st (Gesture rawGesture) now)
            (classifyGesture landmarks))"

text \<open>
  A run of frames, each with its clock reading: the final state and, frame by frame,
  what was dispatched.
\<close>

fun feed ::
  "ConfirmationState \<Rightarrow> (observation \<times> int) list
     \<Rightarrow> ConfirmationState \<times> GestureResult option list" where
  "feed st [] = (st, [])"
| "feed st ((ob, now) # rest) =
     (case observe st ob now of
        (st1, e) \<Rightarrow> (case feed st1 rest of (st2, es) \<Rightarrow> (st2, e # es)))"

section \<open>Sample hands and gestures\<close>

text \<open>Concrete inputs on which the theorems below are evaluated.\<close>

definition origin :: landmark where
  "origin = \<lparr>lm_x = 0, lm_y = 0, lm_z = None\<rparr>"

text \<open>All 21 landmarks at the origin: no finger extended, thumb tucked.\<close>

definition flatHand :: "landmark list" where
  "flatHand = replicate 21 origin"

text \<open>The four finger tips above their PIP joints, the thumb tip spread sideways.\<close>

definition openPalmHand :: "landmark list" where
  "openPalmHand = (replicate 21 origin)
     [6 := \<lparr>lm_x = 0, lm_y = 1, lm_z = None\<rparr>,
      10 := \<lparr>lm_x = 0, lm_y = 1, lm_z = None\<rparr>,
      14 := \<lparr>lm_x = 0, lm_y = 1, lm_z = None\<rparr>,
      18 := \<lparr>lm_x = 0, lm_y = 1, lm_z = None\<rparr>,
      4 := \<lparr>lm_x = 1, lm_y = 0, lm_z = None\<rparr>]"

text \<open>
  Index finger extended, thumb extended, and the thumb tip (landmark 4) on the index
  tip (landmark 8).
\<close>

definition pinchedPointingHand :: "landmark list" where
  "pinchedPointingHand = (replicate 21 origin)
     [6 := \<lparr>lm_x = 0, lm_y = 1, lm_z = None\<rparr>,
      2 := \<lparr>lm_x = 1, lm_y = 0, lm_z = None\<rparr>,
      3 := \<lparr>lm_x = 1, lm_y = 0, lm_z = None\<rparr>]"

text \<open>The same hand with the index tip at distance 1 from the thumb tip.\<close>

definition pointingHand :: "landmark list" where
  "pointingHand = (replicate 21 origin)
     [6 := \<lparr>lm_x = 0, lm_y = 1, lm_z = None\<rparr>,
      2 := \<lparr>lm_x = 1, lm_y = 0, lm_z = None\<rparr>,
      3 := \<lparr>lm_x = 1, lm_y = 0, lm_z = None\<rparr>,
      8 := \<lparr>lm_x = 1, lm_y = 0, lm_z = None\<rparr>]"

text \<open>Only the middle finger extended: no rule of the classifier applies.\<close>

definition middleFingerHand :: "landmark list" where
  "middleFingerHand = (replicate 21 origin)[10 := \<lparr>lm_x = 0, lm_y = 1, lm_z = None\<rparr>]"

text \<open>Two results of the classifier, and its fallback.\<close>

definition fist :: GestureResult where
  "fist = \<lparr>name = ''Fist'', emoji = [9994], action = Some ''start''\<rparr>"

definition openPalm :: GestureResult where
  "openPalm = \<lparr>name = ''Open Palm'', emoji = [9995], action = Some ''stop''\<rparr>"

definition unknown :: GestureResult where
  "unknown = \<lparr>name = ''Unknown'', emoji = [129306], action = None\<rparr>"

section \<open>The classifier on a hand of 21 landmarks\<close>

lemma landmarkAt_in:
  "i < length landmarks \<Longrightarrow> landmarkAt landmarks i = Some (landmarks ! i)"
  by (simp add: landmarkAt_def)

lemma landmarkAt_0:
  "21 \<le> length landmarks \<Longrightarrow> landmarkAt landmarks 0 = Some (landmarks ! 0)"
  by (auto simp add: landmarkAt_def)

lemma fingersExtendedOf_list:
  "fingersExtendedOf landmarks =
     [lm_y (landmarks ! 8) < lm_y (landmarks ! 6),
      lm_y (landmarks ! 12) < lm_y (landmarks ! 10),
      lm_y (landmarks ! 16) < lm_y (landmarks ! 14),
      lm_y (landmarks ! 20) < lm_y (landmarks ! 18)]"
  by (simp add: fingersExtendedOf_def tips_def pips_def)

text \<open>
  With 21 landmarks or more no read fails, and \<open>classifyGesture\<close> is the first-match
  chain over the thirteen rule conditions.
\<close>

lemma classifyGesture_rules:
  assumes "21 \<le> length landmarks"
  shows "classifyGesture landmarks = Some
     (if ruleOpenPalm landmarks
      then \<lparr>name = ''Open Palm'', emoji = [9995], action = Some ''stop''\<rparr>
      else if ruleThumbsUp landmarks
      then \<lparr>name = ''Thumbs Up'', emoji = [128077], action = Some ''confirm''\<rparr>
      else if ruleThumbsDown landmarks
      then \<lparr>name = ''Thumbs Down'', emoji = [128078], action = Some ''reject''\<rparr>
      else if ruleFist landmarks
      then \<lparr>name = ''Fist'', emoji = [9994], action = Some ''start''\<rparr>
      else if rulePinch landmarks
      then \<lparr>name = ''Pinch'', emoji = [129295], action = Some ''zoom''\<rparr>
      else if ruleOKSign landmarks
      then \<lparr>name = ''OK Sign'', emoji = [128076], action = Some ''toggle-theme''\<rparr>
      else if rulePeaceSign landmarks
      then \<lparr>name = ''Peace Sign'', emoji = [9996, 65039], action = Some ''scroll''\<rparr>
      else if rulePointing landmarks
      then \<lparr>name = ''Pointing'', emoji = [9757, 65039], action = Some ''point''\<rparr>
      else if ruleThreeFingers landmarks
      then \<lparr>name = ''Three Fingers'', emoji = [129311], action = Some ''scroll-up''\<rparr>
      else if ruleLShape landmarks
      then \<lparr>name = ''L-Shape'', emoji = [128070], action = Some ''prev-section''\<rparr>
      else if ruleFourFingers landmarks
      then \<lparr>name = ''Four Fingers'', emoji = [128406], action = Some ''next-section''\<rparr>
      else if ruleRockOn landmarks
      then \<lparr>name = ''Rock On'', emoji = [129304], action = Some ''top''\<rparr>
      else if ruleHangLoose landmarks
      then \<lparr>name = ''Hang Loose'', emoji = [129305], action = Some ''bottom''\<rparr>
      else \<lparr>name = ''Unknown'', emoji = [129306], action = None\<rparr>)"
proof -
  have fe: "those (map (\<lambda>(tip, pip). yLess landmarks tip pip) (zip tips pips))
             = Some (fingersExtendedOf landmarks)"
    using assms
    by (simp add: tips_def pips_def yLess_def yAt_def landmarkAt_in fingersExtendedOf_def)
  have rd: "xAt landmarks 4 = Some (lm_x (landmarks ! 4))"
    "xAt landmarks 2 = Some (lm_x (landmarks ! 2))"
    "xAt landmarks 3 = Some (lm_x (landmarks ! 3))"
    "yLess landmarks 4 0 = Some (thumbPointingUpOf landmarks)"
    "yLess landmarks 4 5 = Some (lm_y (landmarks ! 4) < lm_y (landmarks ! 5))"
    "yGreater landmarks 4 3 = Some (lm_y (landmarks ! 4) > lm_y (landmarks ! 3))"
    "distAt landmarks 4 8 = Some (pinchDistOf landmarks)"
    using assms
    by (simp_all add: xAt_def yLess_def yGreater_def distAt_def yAt_def landmarkAt_in
        landmarkAt_0 thumbPointingUpOf_def pinchDistOf_def)
  have some_if: "\<And>c (a::GestureResult) b.
      (if c then Some a else Some b) = Some (if c then a else b)"
    by simp
  have some_if_b: "\<And>c (a::bool) b.
      (if c then Some a else Some b) = Some (if c then a else b)"
    by simp
  have if_conj: "\<And>P Q. (if P then Q else False) = (P \<and> Q)"
    by simp
  show ?thesis
    unfolding classifyGesture_def fe rd
    by (simp add: Let_def ruleOpenPalm_def ruleThumbsUp_def ruleThumbsDown_def ruleFist_def
      rulePinch_def ruleOKSign_def rulePeaceSign_def rulePointing_def ruleThreeFingers_def
      ruleLShape_def ruleFourFingers_def ruleRockOn_def ruleHangLoose_def
      extendedCountOf_def thumbExtendedOf_def some_if some_if_b if_conj
      cong: if_cong split del: if_split)
qed

text \<open>With fewer than 21 landmarks the read of landmark 20 throws.\<close>

lemma classifyGesture_short:
  assumes "length landmarks < 21"
  shows "classifyGesture landmarks = None"
proof -
  have "yLess landmarks 20 18 = None"
    using assms by (simp add: yLess_def yAt_def landmarkAt_def)
  then have "those (map (\<lambda>(tip, pip). yLess landmarks tip pip) (zip tips pips)) = None"
    by (simp add: tips_def pips_def split: option.splits)
  then show ?thesis
    by (simp add: classifyGesture_def)
qed

lemma extendedCountOf_bounds:
  "fingersExtendedOf landmarks ! 0 \<Longrightarrow> extendedCountOf landmarks \<noteq> 0"
  "\<not> fingersExtendedOf landmarks ! 1 \<Longrightarrow> extendedCountOf landmarks < 4"
  by (simp_all add: extendedCountOf_def fingersExtendedOf_list)

text \<open>
  C9 (classifier totality). On an array of exactly 21 landmarks \<open>classifyGesture\<close>
  does not throw: every read is in range, and it returns exactly one result.
\<close>

theorem classifier_total:
  assumes "length landmarks = 21"
  shows "\<exists>!g. classifyGesture landmarks = Some g"
  using assms by (simp add: classifyGesture_rules split del: if_split)

theorem classifier_total_witness:
  "length flatHand = 21 \<and> (\<exists>!g. classifyGesture flatHand = Some g)"
proof -
  have l: "length flatHand = 21"
    by (simp add: flatHand_def)
  show ?thesis
    using l classifier_total [OF l] by simp
qed

text \<open>
  C6 (first-rule dominance). A hand of 21 landmarks with \<open>extendedCount >= 4\<close> and
  \<open>thumbExtended\<close> is classified Open Palm with action \<open>stop\<close>, whatever its other
  features are.
\<close>

theorem open_palm_first:
  assumes "length landmarks = 21"
    and "extendedCountOf landmarks \<ge> 4" and "thumbExtendedOf landmarks"
  shows "classifyGesture landmarks
           = Some \<lparr>name = ''Open Palm'', emoji = [9995], action = Some ''stop''\<rparr>"
  using assms by (simp add: classifyGesture_rules ruleOpenPalm_def)

theorem open_palm_first_witness:
  "length openPalmHand = 21 \<and> extendedCountOf openPalmHand \<ge> 4
   \<and> thumbExtendedOf openPalmHand
   \<and> classifyGesture openPalmHand
       = Some \<lparr>name = ''Open Palm'', emoji = [9995], action = Some ''stop''\<rparr>"
proof -
  have l: "length openPalmHand = 21"
    by (simp add: openPalmHand_def)
  have c: "extendedCountOf openPalmHand \<ge> 4"
    by (simp add: openPalmHand_def origin_def extendedCountOf_def fingersExtendedOf_list)
  have t: "thumbExtendedOf openPalmHand"
    by (simp add: openPalmHand_def origin_def thumbExtendedOf_def)
  show ?thesis
    using l c t open_palm_first [OF l c t] by simp
qed

text \<open>
  C2 (rule order, Pointing before L-Shape), as amended. A hand of 21 landmarks that
  satisfies the condition of Pointing and the condition of L-Shape is classified
  Pointing with action \<open>point\<close> when thumb tip and index tip are not closer than 0.06,
  and Pinch with action \<open>zoom\<close> when they are closer than 0.06: the rule of Pointing
  comes before the rule of L-Shape, but the rule of Pinch comes before both. L-Shape is
  the result in neither case.
\<close>

theorem pointing_before_lshape:
  assumes "length landmarks = 21"
    and "rulePointing landmarks" and "ruleLShape landmarks"
  shows "classifyGesture landmarks
           = Some (if pinchDistOf landmarks < 0.06
                   then \<lparr>name = ''Pinch'', emoji = [129295], action = Some ''zoom''\<rparr>
                   else \<lparr>name = ''Pointing'', emoji = [9757, 65039],
                          action = Some ''point''\<rparr>)"
proof -
  from assms(2) have fe: "fingersExtendedOf landmarks ! 0" "\<not> fingersExtendedOf landmarks ! 1"
    "\<not> fingersExtendedOf landmarks ! 2" "\<not> fingersExtendedOf landmarks ! 3"
    by (simp_all add: rulePointing_def)
  from fe have n: "extendedCountOf landmarks \<noteq> 0" "extendedCountOf landmarks < 4"
    by (simp_all add: extendedCountOf_bounds)
  have early: "\<not> ruleOpenPalm landmarks" "\<not> ruleThumbsUp landmarks"
    "\<not> ruleThumbsDown landmarks" "\<not> ruleFist landmarks"
    using n by (simp_all add: ruleOpenPalm_def ruleThumbsUp_def ruleThumbsDown_def ruleFist_def)
  have pinch: "rulePinch landmarks = (pinchDistOf landmarks < 0.06)"
    using fe by (simp add: rulePinch_def)
  have late: "\<not> ruleOKSign landmarks" "\<not> rulePeaceSign landmarks"
    using fe by (simp_all add: ruleOKSign_def rulePeaceSign_def)
  show ?thesis
    using assms(1,2) early late by (simp add: classifyGesture_rules pinch)
qed

lemma pointingHand_facts:
  "length pointingHand = 21"
  "fingersExtendedOf pointingHand = [True, False, False, False]"
  "thumbExtendedOf pointingHand"
  "pinchDistOf pointingHand = 1"
  by (simp_all add: pointingHand_def origin_def fingersExtendedOf_list thumbExtendedOf_def
      pinchDistOf_def landmarkDist_def zOr0_def)

theorem pointing_before_lshape_witness:
  "length pointingHand = 21 \<and> rulePointing pointingHand \<and> ruleLShape pointingHand
   \<and> \<not> pinchDistOf pointingHand < 0.06
   \<and> classifyGesture pointingHand
       = Some \<lparr>name = ''Pointing'', emoji = [9757, 65039], action = Some ''point''\<rparr>"
proof -
  have l: "length pointingHand = 21"
    by (simp add: pointingHand_facts)
  have p: "rulePointing pointingHand" and s: "ruleLShape pointingHand"
    by (simp_all add: rulePointing_def ruleLShape_def pointingHand_facts)
  have d: "\<not> pinchDistOf pointingHand < 0.06"
    by (simp add: pointingHand_facts)
  show ?thesis
    using l p s d pointing_before_lshape [OF l p s] by simp
qed

text \<open>
  The claim as first stated, that every such hand is classified Pointing, fails on
  \<open>pinchedPointingHand\<close>: its features are \<open>extended[0] = true\<close>, the other three
  \<open>false\<close>, \<open>thumbExtended = true\<close>, both conditions hold, and it is classified Pinch.
\<close>

lemma pinchedPointingHand_facts:
  "length pinchedPointingHand = 21"
  "fingersExtendedOf pinchedPointingHand = [True, False, False, False]"
  "thumbExtendedOf pinchedPointingHand"
  "pinchDistOf pinchedPointingHand = 0"
  by (simp_all add: pinchedPointingHand_def origin_def fingersExtendedOf_list thumbExtendedOf_def
      pinchDistOf_def landmarkDist_def zOr0_def)

theorem pointing_before_lshape_counterexample:
  "length pinchedPointingHand = 21
   \<and> fingersExtendedOf pinchedPointingHand = [True, False, False, False]
   \<and> thumbExtendedOf pinchedPointingHand
   \<and> rulePointing pinchedPointingHand \<and> ruleLShape pinchedPointingHand
   \<and> classifyGesture pinchedPointingHand
       = Some \<lparr>name = ''Pinch'', emoji = [129295], action = Some ''zoom''\<rparr>
   \<and> classifyGesture pinchedPointingHand
       \<noteq> Some \<lparr>name = ''Pointing'', emoji = [9757, 65039], action = Some ''point''\<rparr>"
proof -
  have "classifyGesture pinchedPointingHand
       = Some \<lparr>name = ''Pinch'', emoji = [129295], action = Some ''zoom''\<rparr>"
    by (simp add: classifyGesture_rules pinchedPointingHand_facts ruleOpenPalm_def
        ruleThumbsUp_def ruleThumbsDown_def ruleFist_def rulePinch_def extendedCountOf_def)
  then show ?thesis
    by (simp add: pinchedPointingHand_facts rulePointing_def ruleLShape_def)
qed

text \<open>
  C7 (closed action enumeration, fallback). On a hand of 21 landmarks the classifier
  returns a result whose action is one of the thirteen action strings or \<open>null\<close>, the
  source's rendering of the tag \<open>none\<close>; and when none of the thirteen rule conditions
  holds, the result is Unknown with action \<open>null\<close>.
\<close>

theorem unknown_fallback_closed_actions:
  assumes "length landmarks = 21"
  shows "\<exists>g. classifyGesture landmarks = Some g
     \<and> action g \<in> {Some ''stop'', Some ''confirm'', Some ''reject'', Some ''start'',
          Some ''zoom'', Some ''toggle-theme'', Some ''scroll'', Some ''point'',
          Some ''scroll-up'', Some ''prev-section'', Some ''next-section'', Some ''top'',
          Some ''bottom'', None}
     \<and> (\<not> ruleOpenPalm landmarks \<and> \<not> ruleThumbsUp landmarks \<and> \<not> ruleThumbsDown landmarks
        \<and> \<not> ruleFist landmarks \<and> \<not> rulePinch landmarks \<and> \<not> ruleOKSign landmarks
        \<and> \<not> rulePeaceSign landmarks \<and> \<not> rulePointing landmarks
        \<and> \<not> ruleThreeFingers landmarks \<and> \<not> ruleLShape landmarks
        \<and> \<not> ruleFourFingers landmarks \<and> \<not> ruleRockOn landmarks
        \<and> \<not> ruleHangLoose landmarks
        \<longrightarrow> g = \<lparr>name = ''Unknown'', emoji = [129306], action = None\<rparr>)"
  using assms by (simp add: classifyGesture_rules)

theorem unknown_fallback_closed_actions_witness:
  "length middleFingerHand = 21
   \<and> \<not> ruleOpenPalm middleFingerHand \<and> \<not> ruleThumbsUp middleFingerHand
   \<and> \<not> ruleThumbsDown middleFingerHand \<and> \<not> ruleFist middleFingerHand
   \<and> \<not> rulePinch middleFingerHand \<and> \<not> ruleOKSign middleFingerHand
   \<and> \<not> rulePeaceSign middleFingerHand \<and> \<not> rulePointing middleFingerHand
   \<and> \<not> ruleThreeFingers middleFingerHand \<and> \<not> ruleLShape middleFingerHand
   \<and> \<not> ruleFourFingers middleFingerHand \<and> \<not> ruleRockOn middleFingerHand
   \<and> \<not> ruleHangLoose middleFingerHand
   \<and> classifyGesture middleFingerHand
       = Some \<lparr>name = ''Unknown'', emoji = [129306], action = None\<rparr>"
proof -
  have l: "length middleFingerHand = 21"
    by (simp add: middleFingerHand_def)
  have fe: "fingersExtendedOf middleFingerHand = [False, True, False, False]"
    by (simp add: middleFingerHand_def origin_def fingersExtendedOf_list)
  have n: "extendedCountOf middleFingerHand = 1"
    by (simp add: extendedCountOf_def fe)
  have r: "\<not> ruleOpenPalm middleFingerHand" "\<not> ruleThumbsUp middleFingerHand"
    "\<not> ruleThumbsDown middleFingerHand" "\<not> ruleFist middleFingerHand"
    "\<not> rulePinch middleFingerHand" "\<not> ruleOKSign middleFingerHand"
    "\<not> rulePeaceSign middleFingerHand" "\<not> rulePointing middleFingerHand"
    "\<not> ruleThreeFingers middleFingerHand" "\<not> ruleLShape middleFingerHand"
    "\<not> ruleFourFingers middleFingerHand" "\<not> ruleRockOn middleFingerHand"
    "\<not> ruleHangLoose middleFingerHand"
    by (simp_all add: ruleOpenPalm_def ruleThumbsUp_def ruleThumbsDown_def ruleFist_def
        rulePinch_def ruleOKSign_def rulePeaceSign_def rulePointing_def ruleThreeFingers_def
        ruleLShape_def ruleFourFingers_def ruleRockOn_def ruleHangLoose_def fe n)
  from unknown_fallback_closed_actions [OF l] r
  have "classifyGesture middleFingerHand
       = Some \<lparr>name = ''Unknown'', emoji = [129306], action = None\<rparr>"
    by auto
  with l r show ?thesis by simp
qed

section \<open>The confirmation window\<close>

text \<open>
  A frame with a hand of 21 landmarks never makes the callback throw, and a frame
  classified Unknown is handled as a frame without a hand.
\<close>

lemma onResults_wellformed:
  "length landmarks = 21 \<Longrightarrow> onResults st (Some (landmarks # others)) now \<noteq> None"
  by (simp add: onResults_def classifyGesture_rules split del: if_split)

lemma observe_unknown:
  "observe st (Gesture unknown) now = observe st NoHand now"
  by (simp add: unknown_def truthy_def)

text \<open>
  C1 (confirmation gate). From the initial state, the frames \<open>A, A, B, B, B\<close> of two
  gestures with different names dispatch nothing on frames 1 to 4 and \<open>B\<close> on frame 5,
  whatever the clock readings \<open>t1\<close> to \<open>t5\<close>. The initial \<open>lastGesture\<close> is the empty
  string and the initial \<open>gestureDebounce\<close> is 0, so a gesture named by the empty string
  would be held back before 800 ms on the clock; no result of the classifier has that name.
\<close>

theorem confirmation_gate_trace:
  assumes "name A \<noteq> name B" and "truthy (action B)"
    and "name B \<noteq> [] \<or> 800 \<le> t5"
  shows "snd (feed initialState
           [(Gesture A, t1), (Gesture A, t2), (Gesture B, t3), (Gesture B, t4), (Gesture B, t5)])
         = [None, None, None, None, Some B]"
  using assms
  by (auto simp add: initialState_def getSmoothedGesture_def GESTURE_CONFIRM_FRAMES_def
      executeGestureAction_def Let_def)

theorem confirmation_gate_trace_witness:
  "name fist \<noteq> name openPalm \<and> truthy (action openPalm) \<and> name openPalm \<noteq> []
   \<and> snd (feed initialState
           [(Gesture fist, 0), (Gesture fist, 33), (Gesture openPalm, 66),
            (Gesture openPalm, 100), (Gesture openPalm, 133)])
         = [None, None, None, None, Some openPalm]"
proof -
  have a: "name fist \<noteq> name openPalm"
    by (simp add: fist_def openPalm_def)
  have b: "truthy (action openPalm)"
    by (simp add: openPalm_def truthy_def)
  have c: "name openPalm \<noteq> [] \<or> (800::int) \<le> 133"
    by (simp add: openPalm_def)
  show ?thesis
    using a b c confirmation_gate_trace [OF a b c, of 0 33 66 100]
    by (simp add: openPalm_def)
qed

text \<open>
  C3 (a gap resets the streak). A gap is a frame without a hand or a frame whose
  gesture has a falsy action (Unknown). In every state a gap empties the buffer, sets
  \<open>confirmedGesture\<close> to \<open>null\<close> and dispatches nothing. From the initial state, the
  frames \<open>A, A, gap, A, A, A\<close> dispatch \<open>A\<close> on frame 6 only: the two frames before the
  gap do not count towards the three. And when \<open>A\<close> has been confirmed before the gap,
  in \<open>A, A, A, gap, A, A, A\<close>, the gap forgets the confirmed label, so that \<open>A\<close> is
  confirmed once more on frame 7 (and dispatched there when 800 ms have passed since
  frame 3).
\<close>

theorem gap_resets_streak:
  assumes "truthy (action A)"
    and "gap = NoHand \<or> gap = Gesture u \<and> \<not> truthy (action u)"
    and "name A \<noteq> [] \<or> 800 \<le> t6"
    and "name A \<noteq> [] \<or> 800 \<le> s3"
  shows "observe st gap now = (st\<lparr>gestureBuffer := [], confirmedGesture := None\<rparr>, None)
     \<and> fst (feed initialState [(Gesture A, t1), (Gesture A, t2), (gap, t3)]) = initialState
     \<and> snd (feed initialState
           [(Gesture A, t1), (Gesture A, t2), (gap, t3),
            (Gesture A, t4), (Gesture A, t5), (Gesture A, t6)])
         = [None, None, None, None, None, Some A]
     \<and> feed initialState [(Gesture A, s1), (Gesture A, s2), (Gesture A, s3), (gap, s4)]
         = (\<lparr>lastGesture = name A, gestureDebounce = s3,
              gestureBuffer = [], confirmedGesture = None\<rparr>,
            [None, None, Some A, None])
     \<and> feed initialState
           [(Gesture A, s1), (Gesture A, s2), (Gesture A, s3), (gap, s4),
            (Gesture A, s5), (Gesture A, s6), (Gesture A, s7)]
         = (\<lparr>lastGesture = name A, gestureDebounce = (if s7 - s3 < 800 then s3 else s7),
              gestureBuffer = [name A, name A, name A], confirmedGesture = Some (name A)\<rparr>,
            [None, None, Some A, None, None, None,
             if s7 - s3 < 800 then None else Some A])"
  using assms
  by (auto simp add: initialState_def getSmoothedGesture_def GESTURE_CONFIRM_FRAMES_def
      executeGestureAction_def Let_def)

theorem gap_resets_streak_witness:
  "truthy (action fist) \<and> \<not> truthy (action unknown) \<and> name fist \<noteq> []
   \<and> observe \<lparr>lastGesture = ''Fist'', gestureDebounce = 1066,
          gestureBuffer = [''Fist'', ''Fist'', ''Fist''], confirmedGesture = Some ''Fist''\<rparr>
        (Gesture unknown) 1100
       = (\<lparr>lastGesture = ''Fist'', gestureDebounce = 1066,
            gestureBuffer = [], confirmedGesture = None\<rparr>, None)
   \<and> fst (feed initialState [(Gesture fist, 0), (Gesture fist, 33), (Gesture unknown, 66)])
       = initialState
   \<and> snd (feed initialState
           [(Gesture fist, 0), (Gesture fist, 33), (Gesture unknown, 66),
            (Gesture fist, 100), (Gesture fist, 133), (Gesture fist, 166)])
         = [None, None, None, None, None, Some fist]
   \<and> feed initialState
           [(Gesture fist, 1000), (Gesture fist, 1033), (Gesture fist, 1066),
            (Gesture unknown, 1100),
            (Gesture fist, 1133), (Gesture fist, 1166), (Gesture fist, 2000)]
         = (\<lparr>lastGesture = ''Fist'', gestureDebounce = 2000,
              gestureBuffer = [''Fist'', ''Fist'', ''Fist''], confirmedGesture = Some ''Fist''\<rparr>,
            [None, None, Some fist, None, None, None, Some fist])"
proof -
  have a: "truthy (action fist)"
    by (simp add: fist_def truthy_def)
  have b: "Gesture unknown = NoHand
      \<or> Gesture unknown = Gesture unknown \<and> \<not> truthy (action unknown)"
    by (simp add: unknown_def truthy_def)
  have c: "name fist \<noteq> [] \<or> (800::int) \<le> 166"
    by (simp add: fist_def)
  have d: "name fist \<noteq> [] \<or> (800::int) \<le> 1066"
    by (simp add: fist_def)
  show ?thesis
    using a b c d
      gap_resets_streak [OF a b c d,
        of "\<lparr>lastGesture = ''Fist'', gestureDebounce = 1066,
             gestureBuffer = [''Fist'', ''Fist'', ''Fist''],
             confirmedGesture = Some ''Fist''\<rparr>"
           1100 0 33 66 100 133 1000 1033 1100 1133 1166 2000]
    by (simp add: fist_def unknown_def truthy_def)
qed

text \<open>
  C8 (stopping), as amended. \<open>stopGestureRecognition\<close> returns the sliding window and
  \<open>confirmedGesture\<close> to their initial values, and leaves the two debounce variables
  \<open>lastGesture\<close> and \<open>gestureDebounce\<close> as they are.
\<close>

theorem stop_resets_window_only:
  "gestureBuffer (stopGestureRecognition st) = gestureBuffer initialState
   \<and> confirmedGesture (stopGestureRecognition st) = confirmedGesture initialState
   \<and> lastGesture (stopGestureRecognition st) = lastGesture st
   \<and> gestureDebounce (stopGestureRecognition st) = gestureDebounce st"
  by (simp add: stopGestureRecognition_def initialState_def)

text \<open>
  The claim as first stated, that every variable is back at its initial value, fails
  on the state reached by three Fist frames: stopping there keeps
  \<open>lastGesture = 'Fist'\<close> and \<open>gestureDebounce = 1066\<close>.
\<close>

theorem stop_resets_all_counterexample:
  "feed initialState [(Gesture fist, 1000), (Gesture fist, 1033), (Gesture fist, 1066)]
     = (\<lparr>lastGesture = ''Fist'', gestureDebounce = 1066,
          gestureBuffer = [''Fist'', ''Fist'', ''Fist''], confirmedGesture = Some ''Fist''\<rparr>,
        [None, None, Some fist])
   \<and> stopGestureRecognition \<lparr>lastGesture = ''Fist'', gestureDebounce = 1066,
          gestureBuffer = [''Fist'', ''Fist'', ''Fist''], confirmedGesture = Some ''Fist''\<rparr>
     = \<lparr>lastGesture = ''Fist'', gestureDebounce = 1066,
          gestureBuffer = [], confirmedGesture = None\<rparr>
   \<and> stopGestureRecognition \<lparr>lastGesture = ''Fist'', gestureDebounce = 1066,
          gestureBuffer = [''Fist'', ''Fist'', ''Fist''], confirmedGesture = Some ''Fist''\<rparr>
     \<noteq> initialState"
  by (simp add: stopGestureRecognition_def initialState_def fist_def truthy_def
      getSmoothedGesture_def GESTURE_CONFIRM_FRAMES_def executeGestureAction_def Let_def)

section \<open>The debounce gate\<close>

text \<open>
  C4 (same-label debounce). Once a gesture \<open>A\<close> has been emitted at time 0, a second
  confirmation of \<open>A\<close> at 500 ms is suppressed and leaves the whole state, so also
  \<open>lastGesture\<close> and \<open>gestureDebounce\<close>, as it was; the same confirmation at 900 ms is
  emitted and moves the time stamp to 900.
\<close>

theorem debounce_same_label:
  assumes "executeGestureAction st A 0 = (st1, Some A)"
  shows "executeGestureAction st1 A 500 = (st1, None)
       \<and> lastGesture st1 = name A \<and> gestureDebounce st1 = 0
       \<and> executeGestureAction st1 A 900 = (st1\<lparr>gestureDebounce := 900\<rparr>, Some A)"
  using assms by (auto simp: executeGestureAction_def split: if_splits)

theorem debounce_same_label_witness:
  "executeGestureAction initialState
       \<lparr>name = ''Fist'', emoji = [9994], action = Some ''start''\<rparr> 0
     = (initialState\<lparr>lastGesture := ''Fist''\<rparr>,
        Some \<lparr>name = ''Fist'', emoji = [9994], action = Some ''start''\<rparr>)
   \<and> executeGestureAction (initialState\<lparr>lastGesture := ''Fist''\<rparr>)
       \<lparr>name = ''Fist'', emoji = [9994], action = Some ''start''\<rparr> 500
     = (initialState\<lparr>lastGesture := ''Fist''\<rparr>, None)
   \<and> executeGestureAction (initialState\<lparr>lastGesture := ''Fist''\<rparr>)
       \<lparr>name = ''Fist'', emoji = [9994], action = Some ''start''\<rparr> 900
     = (initialState\<lparr>lastGesture := ''Fist'', gestureDebounce := 900\<rparr>,
        Some \<lparr>name = ''Fist'', emoji = [9994], action = Some ''start''\<rparr>)"
proof -
  have h: "executeGestureAction initialState
       \<lparr>name = ''Fist'', emoji = [9994], action = Some ''start''\<rparr> 0
     = (initialState\<lparr>lastGesture := ''Fist''\<rparr>,
        Some \<lparr>name = ''Fist'', emoji = [9994], action = Some ''start''\<rparr>)"
    by (simp add: executeGestureAction_def initialState_def)
  show ?thesis
    using h debounce_same_label [OF h] by simp
qed

text \<open>
  C5 (a different label passes). Once \<open>A\<close> has been emitted at time 0, a gesture \<open>B\<close>
  with another name is emitted at 10 ms; and in any state, at any time, a gesture whose
  name is not \<open>lastGesture\<close> is emitted: the 800 ms guard only holds back the name that
  was emitted last.
\<close>

theorem different_label_override:
  assumes "executeGestureAction st A 0 = (st1, Some A)" and "name B \<noteq> name A"
  shows "executeGestureAction st1 B 10
           = (st1\<lparr>lastGesture := name B, gestureDebounce := 10\<rparr>, Some B)
       \<and> (name B \<noteq> lastGesture st' \<longrightarrow>
            executeGestureAction st' B now
              = (st'\<lparr>lastGesture := name B, gestureDebounce := now\<rparr>, Some B))"
  using assms by (auto simp: executeGestureAction_def split: if_splits)

theorem different_label_override_witness:
  "executeGestureAction initialState fist 0 = (initialState\<lparr>lastGesture := ''Fist''\<rparr>, Some fist)
   \<and> name openPalm \<noteq> name fist
   \<and> name openPalm \<noteq> lastGesture (initialState\<lparr>lastGesture := ''Fist'', gestureDebounce := 5\<rparr>)
   \<and> executeGestureAction (initialState\<lparr>lastGesture := ''Fist''\<rparr>) openPalm 10
       = (initialState\<lparr>lastGesture := ''Open Palm'', gestureDebounce := 10\<rparr>, Some openPalm)
   \<and> executeGestureAction (initialState\<lparr>lastGesture := ''Fist'', gestureDebounce := 5\<rparr>)
         openPalm 6
       = (initialState\<lparr>lastGesture := ''Open Palm'', gestureDebounce := 6\<rparr>, Some openPalm)"
proof -
  have a: "executeGestureAction initialState fist 0
      = (initialState\<lparr>lastGesture := ''Fist''\<rparr>, Some fist)"
    by (simp add: executeGestureAction_def initialState_def fist_def)
  have b: "name openPalm \<noteq> name fist"
    by (simp add: fist_def openPalm_def)
  have c: "name openPalm
      \<noteq> lastGesture (initialState\<lparr>lastGesture := ''Fist'', gestureDebounce := 5\<rparr>)"
    by (simp add: openPalm_def)
  show ?thesis
    using a b c
      different_label_override [OF a b,
        of "initialState\<lparr>lastGesture := ''Fist'', gestureDebounce := 5\<rparr>" 6]
    by (simp add: openPalm_def)
qed

text \<open>
  C10 (the debounce remembers one emission). After \<open>A\<close> has been emitted at any time
  \<open>t0\<close> and \<open>B\<close>, of another name, is confirmed at any time \<open>t1\<close>, \<open>B\<close> is emitted
  and the stored pair is that of \<open>B\<close>; \<open>A\<close> confirmed at any time \<open>t2\<close> is then
  emitted again, however little time has passed since \<open>A\<close> was last emitted. The
  readings 0, 10 and 20 ms are one instance.
\<close>

theorem debounce_depth_one:
  assumes "executeGestureAction st A t0 = (st1, Some A)" and "name B \<noteq> name A"
    and "executeGestureAction st1 B t1 = (st2, e2)"
  shows "e2 = Some B \<and> lastGesture st2 = name B \<and> gestureDebounce st2 = t1
       \<and> executeGestureAction st2 A t2
           = (st2\<lparr>lastGesture := name A, gestureDebounce := t2\<rparr>, Some A)"
  using assms by (auto simp: executeGestureAction_def split: if_splits)

theorem debounce_depth_one_witness:
  "executeGestureAction initialState fist 0 = (initialState\<lparr>lastGesture := ''Fist''\<rparr>, Some fist)
   \<and> name openPalm \<noteq> name fist
   \<and> executeGestureAction (initialState\<lparr>lastGesture := ''Fist''\<rparr>) openPalm 10
       = (initialState\<lparr>lastGesture := ''Open Palm'', gestureDebounce := 10\<rparr>, Some openPalm)
   \<and> executeGestureAction (initialState\<lparr>lastGesture := ''Open Palm'', gestureDebounce := 10\<rparr>)
         fist 20
       = (initialState\<lparr>lastGesture := ''Fist'', gestureDebounce := 20\<rparr>, Some fist)"
proof -
  have a: "executeGestureAction initialState fist 0
      = (initialState\<lparr>lastGesture := ''Fist''\<rparr>, Some fist)"
    by (simp add: executeGestureAction_def initialState_def fist_def)
  have b: "name openPalm \<noteq> name fist"
    by (simp add: fist_def openPalm_def)
  have c: "executeGestureAction (initialState\<lparr>lastGesture := ''Fist''\<rparr>) openPalm 10
      = (initialState\<lparr>lastGesture := ''Open Palm'', gestureDebounce := 10\<rparr>, Some openPalm)"
    by (simp add: executeGestureAction_def initialState_def openPalm_def)
  show ?thesis
    using a b c debounce_depth_one [OF a b c, of 20] by (simp add: fist_def openPalm_def)
qed

end
